theory Spec2Isabelle
  imports Complex_Main
begin

section \<open>Data model (src/components/Map.tsx, lines 7-22)\<close>

text \<open>
  The viewer is one TypeScript module. Its JavaScript numbers are modelled as follows:
  scene ids, which the registry writes as integer literals, are \<^typ>\<open>int\<close>; coordinates,
  angles, opacities and scales are \<^typ>\<open>real\<close>, with \<open>Math.PI\<close> as \<^term>\<open>pi\<close>.
  A field that may be \<open>null\<close> or left out (\<open>undefined\<close>) is an \<^typ>\<open>'a option\<close>.
  Two field names are primed because \<open>id\<close> is a constant of HOL and \<open>next\<close> is a
  keyword; the fields of \<open>FootstepPosition\<close> and the scene's own \<open>position\<close> carry a
  prefix so that \<open>position\<close> and \<open>rotation\<close> stay free for the hotspot's properties.
\<close>

type_synonym vec3 = "real \<times> real \<times> real"

record FootstepPosition =
  fs_position :: vec3
  fs_rotation :: real

record PanoramaImage =
  id' :: int
  name :: string
  url :: string
  img_position :: vec3
  prev :: "int option"
  next' :: "int option"
  prevFootstep :: "FootstepPosition option"
  nextFootstep :: "FootstepPosition option"

datatype direction = Prev | Next

text \<open>The properties of a \<open>Footstep\<close> that the resolver computes (\<open>FootstepProps\<close>
  without its \<open>onClick\<close> callback, which the component receives separately).\<close>

record FootstepProps =
  position :: vec3
  rotation :: real
  targetId :: "int option"
  direction :: direction

section \<open>The scene registry (lines 25-82)\<close>

definition panoramaImages :: "PanoramaImage list" where
  "panoramaImages =
    [ \<lparr> id' = 1, name = ''Entrance'', url = ''/assets/360%20images/1-Entrance.jpeg'',
        img_position = (0, 0, 0), prev = None, next' = Some 2,
        prevFootstep = None,
        nextFootstep = Some \<lparr> fs_position = (3, -4, 3), fs_rotation = pi * (-0.75) \<rparr> \<rparr>,
      \<lparr> id' = 2, name = ''Window Table'', url = ''/assets/360%20images/2-Window%20Table.jpeg'',
        img_position = (5, 0, 0), prev = Some 1, next' = Some 3,
        prevFootstep = Some \<lparr> fs_position = (-5, -4, 2), fs_rotation = pi * 0.5 \<rparr>,
        nextFootstep = Some \<lparr> fs_position = (5, -4, 0), fs_rotation = pi * (-0.5) \<rparr> \<rparr>,
      \<lparr> id' = 3, name = ''Window Table 2'', url = ''/assets/360%20images/3-Window%20Table%202.jpeg'',
        img_position = (10, 0, 0), prev = Some 2, next' = Some 4,
        prevFootstep = Some \<lparr> fs_position = (1.5, -4, -5), fs_rotation = pi * 2 \<rparr>,
        nextFootstep = Some \<lparr> fs_position = (0, -4, 5), fs_rotation = pi \<rparr> \<rparr>,
      \<lparr> id' = 4, name = ''Corner'', url = ''/assets/360%20images/4-Corner.jpeg'',
        img_position = (5, 0, -5), prev = Some 3, next' = None,
        prevFootstep = Some \<lparr> fs_position = (-3, -4, 8), fs_rotation = pi * 0.7 \<rparr>,
        nextFootstep = None \<rparr> ]"

text \<open>\<open>panoramaImages.find((img) => img.id === i)\<close>: the first scene with that id, or
  \<open>undefined\<close>.\<close>

definition find_image :: "int \<Rightarrow> PanoramaImage option" where
  "find_image i = List.find (\<lambda>img. id' img = i) panoramaImages"

section \<open>Navigation state (lines 292-298)\<close>

record MapState =
  currentImageId :: int

text \<open>\<open>useState(1)\<close>.\<close>

definition Map_init :: MapState where
  "Map_init = \<lparr> currentImageId = 1 \<rparr>"

text \<open>\<open>handleNavigate\<close> is \<open>setCurrentImageId(imageId)\<close> and nothing else.\<close>

definition handleNavigate :: "int \<Rightarrow> MapState \<Rightarrow> MapState" where
  "handleNavigate imageId st = st \<lparr> currentImageId := imageId \<rparr>"

text \<open>The states passed through by a sequence of navigations, in dispatch order.\<close>

fun navigate_trace :: "MapState \<Rightarrow> int list \<Rightarrow> MapState list" where
  "navigate_trace st [] = []"
| "navigate_trace st (i # is) = handleNavigate i st # navigate_trace (handleNavigate i st) is"

text \<open>The state after a sequence of navigations: each one is applied to the state the
  one before it left.\<close>

definition navigate_all :: "MapState \<Rightarrow> int list \<Rightarrow> MapState" where
  "navigate_all st ids = foldl (\<lambda>s j. handleNavigate j s) st ids"

section \<open>JavaScript's \<open>||\<close> on the three kinds of operand the resolver uses\<close>

text \<open>
  \<open>a || b\<close> is \<open>a\<close> when \<open>a\<close> is truthy and \<open>b\<close> otherwise. \<open>undefined\<close> and \<open>null\<close>
  are falsy, every array is truthy (also \<open>[0, 0, 0]\<close>), and a number is falsy exactly when
  it is \<open>0\<close> (or \<open>NaN\<close>, which \<^typ>\<open>real\<close> and \<^typ>\<open>int\<close> do not have).
\<close>

definition or_array :: "'a option \<Rightarrow> 'a \<Rightarrow> 'a" where
  "or_array x d = (case x of None \<Rightarrow> d | Some v \<Rightarrow> v)"

definition or_number :: "real option \<Rightarrow> real \<Rightarrow> real" where
  "or_number x d = (case x of None \<Rightarrow> d | Some v \<Rightarrow> if v = 0 then d else v)"

text \<open>\<open>x || null\<close> for an id \<open>x\<close>.\<close>

definition or_null :: "int option \<Rightarrow> int option" where
  "or_null x = (case x of None \<Rightarrow> None | Some v \<Rightarrow> if v = 0 then None else Some v)"

section \<open>The placement resolver (lines 218-250)\<close>

text \<open>
  Both functions close over \<open>currentPanorama\<close>, the result of the registry lookup, which
  may be \<open>undefined\<close>; \<open>currentPanorama?.prevFootstep?.position\<close> is the optional chain
  \<^term>\<open>map_option fs_position (Option.bind currentPanorama prevFootstep)\<close>.
\<close>

definition getPrevFootstepData :: "PanoramaImage option \<Rightarrow> FootstepProps" where
  "getPrevFootstepData currentPanorama =
    (let defaultPosition = (-3, -4, 5);
         defaultRotation = pi * 0.75
     in \<lparr> position = or_array (map_option fs_position (Option.bind currentPanorama prevFootstep))
                         defaultPosition,
          rotation = or_number (map_option fs_rotation (Option.bind currentPanorama prevFootstep))
                         defaultRotation,
          targetId = or_null (Option.bind currentPanorama prev),
          direction = Prev \<rparr>)"

definition getNextFootstepData :: "PanoramaImage option \<Rightarrow> FootstepProps" where
  "getNextFootstepData currentPanorama =
    (let defaultPosition = (3, -4, 5);
         defaultRotation = pi * 0.25
     in \<lparr> position = or_array (map_option fs_position (Option.bind currentPanorama nextFootstep))
                         defaultPosition,
          rotation = or_number (map_option fs_rotation (Option.bind currentPanorama nextFootstep))
                         defaultRotation,
          targetId = or_null (Option.bind currentPanorama next'),
          direction = Next \<rparr>)"

text \<open>What \<open>PanoramaSphere\<close> hands to the engine once its texture is loaded: the image on
  the sphere and the properties of its two \<open>Footstep\<close> children.\<close>

record SphereView =
  texture_url :: string
  prevHotspot :: FootstepProps
  nextHotspot :: FootstepProps

definition PanoramaSphere :: "string \<Rightarrow> int \<Rightarrow> SphereView" where
  "PanoramaSphere imageUrl imageId =
    (let currentPanorama = find_image imageId
     in \<lparr> texture_url = imageUrl,
          prevHotspot = getPrevFootstepData currentPanorama,
          nextHotspot = getNextFootstepData currentPanorama \<rparr>)"

section \<open>The camera reset effect (lines 208-216)\<close>

text \<open>\<open>lastPositionRef\<close> starts as \<open>null\<close>; the camera's rotation is the engine's, and the
  user turns it between renders.\<close>

record SphereState =
  lastPositionRef :: "string option"
  camera_rotation :: vec3

definition resetCameraEffect :: "string \<Rightarrow> SphereState \<Rightarrow> SphereState" where
  "resetCameraEffect imageUrl s =
    (if lastPositionRef s \<noteq> Some imageUrl
     then s \<lparr> camera_rotation := (0, 0, 0), lastPositionRef := Some imageUrl \<rparr>
     else s)"

section \<open>The \<open>Footstep\<close> component (lines 93-192)\<close>

record FootstepState =
  hovered :: bool
  scale :: real

definition Footstep_init :: FootstepState where
  "Footstep_init = \<lparr> hovered = False, scale = 1 \<rparr>"

definition isDisabled :: "FootstepProps \<Rightarrow> bool" where
  "isDisabled props = (targetId props = None)"

definition nextColor :: string where "nextColor = ''#61dafb''"
definition prevColor :: string where "prevColor = ''#fb6161''"
definition disabledColor :: string where "disabledColor = ''#888888''"

record ArrowView =
  arrow_z :: real
  arrow_rotation :: real
  arrow_color :: string
  arrow_opacity :: real

record FootstepView =
  group_position :: vec3
  group_rotation :: real
  mesh_scale :: real
  mesh_opacity :: real
  mesh_color :: string
  mesh_clickable :: bool
  arrow :: "ArrowView option"
  label :: "string option"

text \<open>The label's text: the direction's prefix, then \<open>find(...)?.name\<close>, which renders
  as nothing when the lookup finds no scene.\<close>

definition label_text :: "direction \<Rightarrow> int \<Rightarrow> string" where
  "label_text d t =
    (if d = Next then ''Next: '' else ''Previous: '')
    @ (case find_image t of None \<Rightarrow> [] | Some img \<Rightarrow> name img)"

definition Footstep_render :: "FootstepProps \<Rightarrow> FootstepState \<Rightarrow> FootstepView" where
  "Footstep_render props fs =
    \<lparr> group_position = position props,
      group_rotation = rotation props,
      mesh_scale = scale fs,
      mesh_opacity = (if isDisabled props then 0.3 else if hovered fs then 1 else 0.7),
      mesh_color = (if isDisabled props then disabledColor
                    else if direction props = Next then nextColor else prevColor),
      mesh_clickable = (if isDisabled props then False else True),
      arrow = (if isDisabled props then None
               else Some \<lparr> arrow_z = (if direction props = Next then 0.5 else -0.5),
                           arrow_rotation = (if direction props = Next then 0 else pi),
                           arrow_color = (if direction props = Next then nextColor else prevColor),
                           arrow_opacity = (if hovered fs then 1 else 0.7) \<rparr>),
      label = (if hovered fs
               then (case targetId props of None \<Rightarrow> None
                     | Some t \<Rightarrow> Some (label_text (direction props) t))
               else None) \<rparr>"

text \<open>\<open>handleClick\<close> stops the event's propagation and calls \<open>onClick\<close> when there is a
  target; the callback is a transition of the caller's state.\<close>

definition handleClick :: "int option \<Rightarrow> (int \<Rightarrow> 's \<Rightarrow> 's) \<Rightarrow> 's \<Rightarrow> 's" where
  "handleClick target onClick s = (case target of None \<Rightarrow> s | Some t \<Rightarrow> onClick t s)"

datatype pointer_event = PointerOver | PointerOut | Click

text \<open>The three handlers of the mesh: \<open>!isDisabled && setHovered(true)\<close>,
  \<open>setHovered(false)\<close>, and \<open>isDisabled ? undefined : handleClick\<close>.\<close>

fun Footstep_event ::
  "pointer_event \<Rightarrow> FootstepProps \<Rightarrow> (int \<Rightarrow> 's \<Rightarrow> 's) \<Rightarrow> FootstepState \<times> 's \<Rightarrow> FootstepState \<times> 's"
where
  "Footstep_event PointerOver props onClick (fs, s) =
     (if isDisabled props then (fs, s) else (fs \<lparr> hovered := True \<rparr>, s))"
| "Footstep_event PointerOut props onClick (fs, s) = (fs \<lparr> hovered := False \<rparr>, s)"
| "Footstep_event Click props onClick (fs, s) =
     (if isDisabled props then (fs, s) else (fs, handleClick (targetId props) onClick s))"

text \<open>The animation effect, run when \<open>hovered\<close> or \<open>isDisabled\<close> changed: it starts the
  interval while the footstep is hovered and enabled, and sets the scale to 1 otherwise.
  \<open>scale_tick\<close> is the interval's callback.\<close>

definition scale_effect :: "FootstepProps \<Rightarrow> FootstepState \<Rightarrow> FootstepState" where
  "scale_effect props fs = (if hovered fs \<and> \<not> isDisabled props then fs else fs \<lparr> scale := 1 \<rparr>)"

definition scale_tick :: "FootstepState \<Rightarrow> FootstepState" where
  "scale_tick fs = fs \<lparr> scale := (if scale fs = 1 then 1.1 else 1) \<rparr>"

section \<open>The \<open>Map\<close> component (lines 292-391)\<close>

text \<open>\<open>currentImage!.url\<close> reads a property of \<open>undefined\<close> when the lookup fails: the
  render throws a \<open>TypeError\<close> before any child element is created.\<close>

datatype error = TypeError

record MapView =
  sphere :: SphereView
  locationIndicator :: string
  navButtons :: "(string \<times> bool) list"

definition Map_render :: "MapState \<Rightarrow> error + MapView" where
  "Map_render st =
    (let currentImage = find_image (currentImageId st)
     in case currentImage of
          None \<Rightarrow> Inl TypeError
        | Some img \<Rightarrow>
            Inr \<lparr> sphere = PanoramaSphere (url img) (currentImageId st),
                  locationIndicator = name img,
                  navButtons = map (\<lambda>b. (name b, currentImageId st = id' b)) panoramaImages \<rparr>)"

text \<open>The clicks that change the scene: on one of the two footsteps (whose \<open>onClick\<close> is
  \<open>handleNavigate\<close>) or on the \<open>k\<close>-th scene button, which calls
  \<open>setCurrentImageId(img.id)\<close>. Nothing is on screen to click when the render threw.\<close>

datatype map_click = FootstepClick direction | NavButtonClick nat

definition hotspot :: "direction \<Rightarrow> SphereView \<Rightarrow> FootstepProps" where
  "hotspot d v = (case d of Prev \<Rightarrow> prevHotspot v | Next \<Rightarrow> nextHotspot v)"

definition Map_click :: "map_click \<Rightarrow> MapState \<Rightarrow> MapState" where
  "Map_click c st =
    (case Map_render st of
       Inl e \<Rightarrow> st
     | Inr v \<Rightarrow>
        (case c of
           FootstepClick d \<Rightarrow>
             snd (Footstep_event Click (hotspot d (sphere v)) handleNavigate (Footstep_init, st))
         | NavButtonClick k \<Rightarrow>
             (if k < length panoramaImages
              then st \<lparr> currentImageId := id' (panoramaImages ! k) \<rparr>
              else st)))"

section \<open>Facts about the registry and its lookup\<close>

lemma find_image_id: "find_image i = Some S \<Longrightarrow> id' S = i"
  unfolding find_image_def by (auto simp: find_Some_iff)

lemma find_image_eqs:
  "find_image 1 = Some (panoramaImages ! 0)"
  "find_image 2 = Some (panoramaImages ! 1)"
  "find_image 3 = Some (panoramaImages ! 2)"
  "find_image 4 = Some (panoramaImages ! 3)"
  by (simp_all add: find_image_def panoramaImages_def)

lemma find_image_valid_iff: "find_image i \<noteq> None \<longleftrightarrow> i \<in> {1, 2, 3, 4}"
  by (auto simp: find_image_def panoramaImages_def)

lemma image_ids: "id' ` set panoramaImages = {1, 2, 3, 4}"
  by (auto simp: panoramaImages_def)

text \<open>
  Claim C5. The compiled-in registry is a well-formed doubly-linked chain: its ids are
  unique and positive; whenever a scene's \<open>next\<close> is the id of a scene \<open>T\<close>, the \<open>prev\<close>
  of \<open>T\<close> is that scene's id; exactly one scene has no \<open>prev\<close> and exactly one has no
  \<open>next\<close>; and every \<open>prev\<close> or \<open>next\<close> that is set is the id of a scene of the registry.
\<close>

theorem registry_well_formed:
  "distinct (map id' panoramaImages)
   \<and> (\<forall>S \<in> set panoramaImages. 0 < id' S)
   \<and> (\<forall>S \<in> set panoramaImages. \<forall>T \<in> set panoramaImages.
         next' S = Some (id' T) \<longrightarrow> prev T = Some (id' S))
   \<and> length (filter (\<lambda>S. prev S = None) panoramaImages) = 1
   \<and> length (filter (\<lambda>S. next' S = None) panoramaImages) = 1
   \<and> (\<forall>S \<in> set panoramaImages. \<forall>i. prev S = Some i \<or> next' S = Some i \<longrightarrow>
         i \<in> id' ` set panoramaImages)"
  by (simp add: panoramaImages_def)

text \<open>The chain symmetry of C5 at the first link: Entrance's \<open>next\<close> is Window Table,
  whose \<open>prev\<close> is Entrance.\<close>

theorem registry_well_formed_witness:
  "panoramaImages ! 0 \<in> set panoramaImages \<and> panoramaImages ! 1 \<in> set panoramaImages
   \<and> next' (panoramaImages ! 0) = Some (id' (panoramaImages ! 1))
   \<and> prev (panoramaImages ! 1) = Some (id' (panoramaImages ! 0))"
proof -
  have m0: "panoramaImages ! 0 \<in> set panoramaImages"
    and m1: "panoramaImages ! 1 \<in> set panoramaImages"
    by (simp_all add: panoramaImages_def)
  have n: "next' (panoramaImages ! 0) = Some (id' (panoramaImages ! 1))"
    by (simp add: panoramaImages_def)
  from registry_well_formed have
    "\<forall>S \<in> set panoramaImages. \<forall>T \<in> set panoramaImages.
       next' S = Some (id' T) \<longrightarrow> prev T = Some (id' S)"
    by blast
  with m0 m1 n have "prev (panoramaImages ! 1) = Some (id' (panoramaImages ! 0))"
    by blast
  with m0 m1 n show ?thesis by simp
qed

section \<open>The placement resolver\<close>

text \<open>What the resolver returns for a scene, field by field. The position follows the
  override whenever there is one; the rotation follows it only when it is not 0.\<close>

lemma getPrev_position:
  "position (getPrevFootstepData (Some S)) =
     (case prevFootstep S of None \<Rightarrow> (-3, -4, 5) | Some f \<Rightarrow> fs_position f)"
  by (simp add: getPrevFootstepData_def or_array_def split: option.splits)

lemma getPrev_rotation:
  "rotation (getPrevFootstepData (Some S)) =
     (case prevFootstep S of None \<Rightarrow> pi * 0.75
      | Some f \<Rightarrow> if fs_rotation f = 0 then pi * 0.75 else fs_rotation f)"
  by (simp add: getPrevFootstepData_def or_number_def split: option.splits)

lemma getNext_position:
  "position (getNextFootstepData (Some S)) =
     (case nextFootstep S of None \<Rightarrow> (3, -4, 5) | Some f \<Rightarrow> fs_position f)"
  by (simp add: getNextFootstepData_def or_array_def split: option.splits)

lemma getNext_rotation:
  "rotation (getNextFootstepData (Some S)) =
     (case nextFootstep S of None \<Rightarrow> pi * 0.25
      | Some f \<Rightarrow> if fs_rotation f = 0 then pi * 0.25 else fs_rotation f)"
  by (simp add: getNextFootstepData_def or_number_def split: option.splits)

text \<open>
  Claim C1 says that an override is honoured whenever it is present, also one whose
  rotation is 0. The resolver reads the rotation through \<open>||\<close>, for which 0 is falsy: for
  a scene whose previous-direction override is at position \<open>[1, -4, 2]\<close> with rotation 0,
  it returns the override's position and the default rotation \<open>0.75 * pi\<close>, which is not
  0.
\<close>

theorem zero_rotation_override_dropped:
  "rotation (getPrevFootstepData (Some \<lparr> id' = 5, name = ''Stairs'', url = ''/assets/5.jpeg'',
       img_position = (0, 0, 0), prev = Some 4, next' = None,
       prevFootstep = Some \<lparr> fs_position = (1, -4, 2), fs_rotation = 0 \<rparr>,
       nextFootstep = None \<rparr>)) = pi * 0.75
   \<and> pi * 0.75 \<noteq> (0::real)
   \<and> position (getPrevFootstepData (Some \<lparr> id' = 5, name = ''Stairs'', url = ''/assets/5.jpeg'',
       img_position = (0, 0, 0), prev = Some 4, next' = None,
       prevFootstep = Some \<lparr> fs_position = (1, -4, 2), fs_rotation = 0 \<rparr>,
       nextFootstep = None \<rparr>)) = (1, -4, 2)"
  by (simp add: getPrevFootstepData_def or_number_def or_array_def)

text \<open>
  Claim C2. For a scene whose links, being scene ids, are positive, the resolver's target
  for Previous is the scene's \<open>prev\<close> and its target for Next is the scene's \<open>next\<close>: no
  link is invented and none is dropped.
\<close>

theorem resolver_targetId:
  assumes "\<forall>i. prev S = Some i \<longrightarrow> 0 < i" and "\<forall>i. next' S = Some i \<longrightarrow> 0 < i"
  shows "targetId (getPrevFootstepData (Some S)) = prev S
       \<and> targetId (getNextFootstepData (Some S)) = next' S"
  using assms
  by (auto simp: getPrevFootstepData_def getNextFootstepData_def or_null_def split: option.splits)

text \<open>The hypothesis is needed: a link with the value 0 is falsy and resolves to no
  target.\<close>

lemma resolver_targetId_zero:
  "targetId (getPrevFootstepData (Some (S \<lparr> prev := Some 0 \<rparr>))) = None
   \<and> targetId (getNextFootstepData (Some (S \<lparr> next' := Some 0 \<rparr>))) = None"
  by (simp add: getPrevFootstepData_def getNextFootstepData_def or_null_def)

text \<open>Without a scene (the lookup of the current id failed) both hotspots are disabled
  and at the defaults.\<close>

lemma resolver_undefined:
  "getPrevFootstepData None =
     \<lparr> position = (-3, -4, 5), rotation = pi * 0.75, targetId = None, direction = Prev \<rparr>"
  "getNextFootstepData None =
     \<lparr> position = (3, -4, 5), rotation = pi * 0.25, targetId = None, direction = Next \<rparr>"
  by (simp_all add: getPrevFootstepData_def getNextFootstepData_def or_array_def or_number_def
      or_null_def)

text \<open>C2 at Window Table, whose links are 1 and 3.\<close>

theorem resolver_targetId_witness:
  "prev (panoramaImages ! 1) = Some 1 \<and> next' (panoramaImages ! 1) = Some 3
   \<and> targetId (getPrevFootstepData (Some (panoramaImages ! 1))) = Some 1
   \<and> targetId (getNextFootstepData (Some (panoramaImages ! 1))) = Some 3"
proof -
  have p: "prev (panoramaImages ! 1) = Some 1" and n: "next' (panoramaImages ! 1) = Some 3"
    by (simp_all add: panoramaImages_def)
  have "\<forall>i. prev (panoramaImages ! 1) = Some i \<longrightarrow> 0 < i"
    and "\<forall>i. next' (panoramaImages ! 1) = Some i \<longrightarrow> 0 < i"
    by (simp_all add: panoramaImages_def)
  from resolver_targetId [OF this] p n show ?thesis by simp
qed

section \<open>Navigation\<close>

text \<open>
  Claim C3. For an id of the registry, navigating to it sets the current scene id to it,
  so that the lookup of the current id then finds the scene with that id; navigating to
  the id that is already current leaves the state as it was, and navigating twice to the
  same id is the same as navigating once.
\<close>

theorem navigate_round_trip:
  assumes "i \<in> id' ` set panoramaImages"
  shows "currentImageId (handleNavigate i st) = i
       \<and> (\<exists>S. find_image (currentImageId (handleNavigate i st)) = Some S \<and> id' S = i)
       \<and> handleNavigate (currentImageId st) st = st
       \<and> handleNavigate i (handleNavigate i st) = handleNavigate i st"
proof -
  have cur: "currentImageId (handleNavigate i st) = i"
    by (simp add: handleNavigate_def)
  from assms have "i \<in> {1, 2, 3, 4}"
    by (simp only: image_ids)
  then have "find_image i \<noteq> None"
    by (simp only: find_image_valid_iff)
  then obtain S where S: "find_image i = Some S" by auto
  then have "id' S = i" by (rule find_image_id)
  with S cur show ?thesis by (simp add: handleNavigate_def)
qed

text \<open>C3 at id 3 from the initial state.\<close>

theorem navigate_round_trip_witness:
  "currentImageId (handleNavigate 3 Map_init) = 3
   \<and> find_image (currentImageId (handleNavigate 3 Map_init)) = Some (panoramaImages ! 2)
   \<and> id' (panoramaImages ! 2) = 3
   \<and> handleNavigate (currentImageId Map_init) Map_init = Map_init"
proof -
  have mem: "(3::int) \<in> id' ` set panoramaImages"
    by (simp add: image_ids)
  from navigate_round_trip [OF mem, of Map_init] show ?thesis
    by (auto simp: find_image_eqs)
qed

lemma navigate_trace_ids: "map currentImageId (navigate_trace st ids) = ids"
  by (induction ids arbitrary: st) (simp_all add: handleNavigate_def)

lemma navigate_trace_last: "last (st # navigate_trace st ids) = navigate_all st ids"
  unfolding navigate_all_def by (induction ids arbitrary: st) simp_all

lemma navigate_trace_append:
  "navigate_trace st (ids @ js) = navigate_trace st ids @ navigate_trace (navigate_all st ids) js"
  unfolding navigate_trace_last [symmetric] by (induction ids arbitrary: st) simp_all

text \<open>
  Claim C6. Navigations take effect in the order they are dispatched, one state per
  navigation, none held back or merged: for every starting state and every sequence of
  ids, the states passed through hold exactly the ids navigated to, in order; the final
  state is the last of them and holds the id navigated to last; and a sequence dispatched
  in two parts passes through the same states as dispatched at once. In particular, from
  scene 1, the navigations to 2, to 1 and to 3 pass through 2 and 1 and end at 3.
\<close>

theorem navigate_in_dispatch_order:
  "map currentImageId (navigate_trace st ids) = ids
   \<and> length (navigate_trace st ids) = length ids
   \<and> last (st # navigate_trace st ids) = navigate_all st ids
   \<and> currentImageId (navigate_all st (ids @ [i])) = i
   \<and> navigate_trace st (ids @ js)
       = navigate_trace st ids @ navigate_trace (navigate_all st ids) js
   \<and> currentImageId Map_init = 1
   \<and> map currentImageId (navigate_trace Map_init [2, 1, 3]) = [2, 1, 3]
   \<and> currentImageId (navigate_all Map_init [2, 1, 3]) = 3
   \<and> currentImageId (handleNavigate 3 (handleNavigate 1 (handleNavigate 2 Map_init))) = 3"
proof -
  have len: "length (navigate_trace st ids) = length ids"
    using navigate_trace_ids [of st ids] by (metis length_map)
  have fin: "currentImageId (navigate_all st (ids @ [i])) = i"
    by (simp add: navigate_all_def handleNavigate_def)
  have inst: "currentImageId Map_init = 1"
    "map currentImageId (navigate_trace Map_init [2, 1, 3]) = [2, 1, 3]"
    "currentImageId (navigate_all Map_init [2, 1, 3]) = 3"
    "currentImageId (handleNavigate 3 (handleNavigate 1 (handleNavigate 2 Map_init))) = 3"
    by (simp_all add: navigate_all_def handleNavigate_def Map_init_def)
  from navigate_trace_ids [of st ids] len navigate_trace_last [of st ids] fin
    navigate_trace_append [of st ids js] inst
  show ?thesis by blast
qed

section \<open>Hotspots\<close>

text \<open>
  Claim C4. On a hotspot whose target is none, no interaction (hover-enter, hover-exit,
  click) navigates, whatever the callback, and none changes what is drawn: the footstep
  stays at the disabled opacity and colour, without click handler, arrow or label, and
  the animation effect leaves its scale at 1. It is still drawn at the position and
  rotation the resolver returned.
\<close>

theorem disabled_footstep_inert:
  assumes "targetId props = None"
  shows "snd (Footstep_event e props onClick (fs, s)) = s
       \<and> Footstep_render props (fst (Footstep_event e props onClick (fs, s)))
           = Footstep_render props fs
       \<and> mesh_opacity (Footstep_render props fs) = 0.3
       \<and> mesh_color (Footstep_render props fs) = disabledColor
       \<and> mesh_clickable (Footstep_render props fs) = False
       \<and> arrow (Footstep_render props fs) = None
       \<and> label (Footstep_render props fs) = None
       \<and> group_position (Footstep_render props fs) = position props
       \<and> group_rotation (Footstep_render props fs) = rotation props
       \<and> scale (scale_effect props (fst (Footstep_event e props onClick (fs, s)))) = 1"
  using assms by (cases e) (simp_all add: isDisabled_def Footstep_render_def scale_effect_def)

text \<open>C4 at the Previous hotspot of Entrance, the head of the chain, clicked in the
  initial state.\<close>

theorem disabled_footstep_inert_witness:
  "targetId (getPrevFootstepData (find_image 1)) = None
   \<and> snd (Footstep_event Click (getPrevFootstepData (find_image 1)) handleNavigate
            (Footstep_init, Map_init)) = Map_init
   \<and> mesh_opacity (Footstep_render (getPrevFootstepData (find_image 1)) Footstep_init) = 0.3
   \<and> label (Footstep_render (getPrevFootstepData (find_image 1)) Footstep_init) = None
   \<and> group_position (Footstep_render (getPrevFootstepData (find_image 1)) Footstep_init)
        = (-3, -4, 5)
   \<and> group_rotation (Footstep_render (getPrevFootstepData (find_image 1)) Footstep_init)
        = pi * 0.75"
proof -
  have h: "targetId (getPrevFootstepData (find_image 1)) = None"
    by (simp add: find_image_eqs getPrevFootstepData_def or_null_def panoramaImages_def)
  have pos: "position (getPrevFootstepData (find_image 1)) = (-3, -4, 5)"
    by (simp add: find_image_eqs getPrev_position panoramaImages_def)
  have rot: "rotation (getPrevFootstepData (find_image 1)) = pi * 0.75"
    by (simp add: find_image_eqs getPrev_rotation panoramaImages_def)
  from disabled_footstep_inert [OF h, of Click handleNavigate Footstep_init Map_init] h pos rot
  show ?thesis by simp
qed

text \<open>
  Claim C9. While an enabled hotspot is hovered and its target is a scene of the
  registry, its label is that scene's name after the direction's prefix:
  \<open>Previous: <name>\<close> for Previous and \<open>Next: <name>\<close> for Next.
\<close>

theorem hover_label:
  assumes "hovered fs" and "targetId props = Some t" and "find_image t = Some T"
  shows "(direction props = Prev \<longrightarrow>
            label (Footstep_render props fs) = Some (''Previous: '' @ name T))
       \<and> (direction props = Next \<longrightarrow>
            label (Footstep_render props fs) = Some (''Next: '' @ name T))"
  using assms by (simp add: Footstep_render_def label_text_def)

text \<open>For a target that the registry does not have, the label is the prefix alone.\<close>

lemma hover_label_dangling:
  assumes "hovered fs" and "targetId props = Some t" and "find_image t = None"
  shows "label (Footstep_render props fs) =
           Some (if direction props = Next then ''Next: '' else ''Previous: '')"
  using assms by (simp add: Footstep_render_def label_text_def)

text \<open>The label is shown only while the footstep is hovered.\<close>

lemma no_label_unless_hovered:
  "\<not> hovered fs \<Longrightarrow> label (Footstep_render props fs) = None"
  by (simp add: Footstep_render_def)

text \<open>C9 at the two hotspots of Window Table.\<close>

theorem hover_label_witness:
  "targetId (getNextFootstepData (find_image 2)) = Some 3
   \<and> label (Footstep_render (getNextFootstepData (find_image 2))
              \<lparr> hovered = True, scale = 1 \<rparr>) = Some ''Next: Window Table 2''
   \<and> label (Footstep_render (getPrevFootstepData (find_image 2))
              \<lparr> hovered = True, scale = 1 \<rparr>) = Some ''Previous: Entrance''"
proof -
  have tn: "targetId (getNextFootstepData (find_image 2)) = Some 3"
    and tp: "targetId (getPrevFootstepData (find_image 2)) = Some 1"
    and dn: "direction (getNextFootstepData (find_image 2)) = Next"
    and dp: "direction (getPrevFootstepData (find_image 2)) = Prev"
    by (simp_all add: find_image_eqs getNextFootstepData_def getPrevFootstepData_def
        or_null_def panoramaImages_def)
  have hov: "hovered \<lparr> hovered = True, scale = 1 \<rparr>" by simp
  have n3: "name (panoramaImages ! 2) = ''Window Table 2''"
    and n1: "name (panoramaImages ! 0) = ''Entrance''"
    by (simp_all add: panoramaImages_def)
  from hover_label [OF hov tn find_image_eqs(3)] hover_label [OF hov tp find_image_eqs(1)]
    tn dn dp n3 n1
  show ?thesis by simp
qed

section \<open>The camera\<close>

text \<open>
  Claim C8. The effect resets the camera's rotation to \<open>(0, 0, 0)\<close> when the image
  reference differs from the one displayed last, and remembers the new reference; when
  the reference is the one displayed last, it leaves the camera and the remembered
  reference as they are.
\<close>

theorem camera_reset_iff_image_changed:
  "(lastPositionRef s \<noteq> Some imageUrl \<longrightarrow>
      camera_rotation (resetCameraEffect imageUrl s) = (0, 0, 0)
      \<and> lastPositionRef (resetCameraEffect imageUrl s) = Some imageUrl)
   \<and> (lastPositionRef s = Some imageUrl \<longrightarrow> resetCameraEffect imageUrl s = s)"
  by (simp add: resetCameraEffect_def)

text \<open>C8 with a camera the user has turned: a new image resets it, the same image does
  not, and the first image after mounting resets it.\<close>

theorem camera_reset_iff_image_changed_witness:
  "camera_rotation (resetCameraEffect ''/assets/b.jpeg''
      \<lparr> lastPositionRef = Some ''/assets/a.jpeg'', camera_rotation = (0.5, 1, 0) \<rparr>) = (0, 0, 0)
   \<and> resetCameraEffect ''/assets/a.jpeg''
      \<lparr> lastPositionRef = Some ''/assets/a.jpeg'', camera_rotation = (0.5, 1, 0) \<rparr>
      = \<lparr> lastPositionRef = Some ''/assets/a.jpeg'', camera_rotation = (0.5, 1, 0) \<rparr>
   \<and> camera_rotation (resetCameraEffect ''/assets/a.jpeg''
      \<lparr> lastPositionRef = None, camera_rotation = (0.5, 1, 0) \<rparr>) = (0, 0, 0)"
  using camera_reset_iff_image_changed
          [of "\<lparr> lastPositionRef = Some ''/assets/a.jpeg'', camera_rotation = (0.5, 1, 0) \<rparr>"
              "''/assets/b.jpeg''"]
        camera_reset_iff_image_changed
          [of "\<lparr> lastPositionRef = Some ''/assets/a.jpeg'', camera_rotation = (0.5, 1, 0) \<rparr>"
              "''/assets/a.jpeg''"]
        camera_reset_iff_image_changed
          [of "\<lparr> lastPositionRef = None, camera_rotation = (0.5, 1, 0) \<rparr>"
              "''/assets/a.jpeg''"]
  by simp

section \<open>A current id that is not in the registry\<close>

lemma Map_render_valid:
  assumes "find_image (currentImageId st) = Some img"
  shows "\<exists>v. Map_render st = Inr v \<and> sphere v = PanoramaSphere (url img) (currentImageId st)"
  using assms by (simp add: Map_render_def)

lemma Map_render_Inr:
  assumes "Map_render st = Inr v"
  shows "\<exists>img. find_image (currentImageId st) = Some img
           \<and> locationIndicator v = name img
           \<and> texture_url (sphere v) = url img
           \<and> prevHotspot (sphere v) = getPrevFootstepData (Some img)
           \<and> nextHotspot (sphere v) = getNextFootstepData (Some img)"
  using assms
  by (auto simp: Map_render_def PanoramaSphere_def Let_def split: option.splits)

text \<open>
  Claim C7. When the current scene id is not found in the registry, the render of \<open>Map\<close>
  aborts with a \<open>TypeError\<close> and there is nothing on screen to click. Conversely,
  whatever \<open>Map\<close> renders is of a scene of the registry: the name shown is that scene's
  name, the image is that scene's image, and both hotspots are resolved from that scene.
  So \<open>PanoramaSphere\<close>, whose only caller is \<open>Map\<close>, is never rendered for an id the
  registry does not have, and its defaults for a failed lookup are never shown.
\<close>

theorem absent_scene_aborts_render:
  "(find_image (currentImageId st) = None \<longrightarrow>
      Map_render st = Inl TypeError \<and> Map_click c st = st)
   \<and> (Map_render st = Inr v \<longrightarrow>
        (\<exists>img. find_image (currentImageId st) = Some img
           \<and> locationIndicator v = name img
           \<and> texture_url (sphere v) = url img
           \<and> prevHotspot (sphere v) = getPrevFootstepData (Some img)
           \<and> nextHotspot (sphere v) = getNextFootstepData (Some img)))"
proof (intro conjI impI)
  assume "find_image (currentImageId st) = None"
  then show "Map_render st = Inl TypeError" by (simp add: Map_render_def)
  then show "Map_click c st = st" by (simp add: Map_click_def)
next
  assume "Map_render st = Inr v"
  then show "\<exists>img. find_image (currentImageId st) = Some img
           \<and> locationIndicator v = name img
           \<and> texture_url (sphere v) = url img
           \<and> prevHotspot (sphere v) = getPrevFootstepData (Some img)
           \<and> nextHotspot (sphere v) = getNextFootstepData (Some img)"
    by (rule Map_render_Inr)
qed

text \<open>C7 at the current id 99, which aborts, and at the initial state, which renders
  Entrance.\<close>

theorem absent_scene_aborts_render_witness:
  "find_image (currentImageId \<lparr> currentImageId = 99 \<rparr>) = None
   \<and> Map_render \<lparr> currentImageId = 99 \<rparr> = Inl TypeError
   \<and> Map_click (NavButtonClick 0) \<lparr> currentImageId = 99 \<rparr> = \<lparr> currentImageId = 99 \<rparr>
   \<and> (\<exists>v. Map_render Map_init = Inr v \<and> locationIndicator v = ''Entrance''
          \<and> texture_url (sphere v) = ''/assets/360%20images/1-Entrance.jpeg'')"
proof -
  have h: "find_image (currentImageId \<lparr> currentImageId = 99 \<rparr>) = None"
    by (simp add: find_image_def panoramaImages_def)
  have f: "find_image (currentImageId Map_init) = Some (panoramaImages ! 0)"
    by (simp add: Map_init_def find_image_eqs)
  from Map_render_valid [OF f] obtain v where v: "Map_render Map_init = Inr v" by blast
  from absent_scene_aborts_render [of Map_init _ v] v f
  have "locationIndicator v = name (panoramaImages ! 0)
        \<and> texture_url (sphere v) = url (panoramaImages ! 0)" by auto
  then have "locationIndicator v = ''Entrance''
        \<and> texture_url (sphere v) = ''/assets/360%20images/1-Entrance.jpeg''"
    by (simp add: panoramaImages_def)
  with v have e: "\<exists>v. Map_render Map_init = Inr v \<and> locationIndicator v = ''Entrance''
          \<and> texture_url (sphere v) = ''/assets/360%20images/1-Entrance.jpeg''" by blast
  from absent_scene_aborts_render [of "\<lparr> currentImageId = 99 \<rparr>" "NavButtonClick 0"] h e
  show ?thesis by simp
qed

section \<open>Validity of the current id is kept by the callers\<close>

lemma hotspot_targets:
  "targetId (hotspot d (PanoramaSphere u 1)) = (case d of Prev \<Rightarrow> None | Next \<Rightarrow> Some 2)"
  "targetId (hotspot d (PanoramaSphere u 2)) = (case d of Prev \<Rightarrow> Some 1 | Next \<Rightarrow> Some 3)"
  "targetId (hotspot d (PanoramaSphere u 3)) = (case d of Prev \<Rightarrow> Some 2 | Next \<Rightarrow> Some 4)"
  "targetId (hotspot d (PanoramaSphere u 4)) = (case d of Prev \<Rightarrow> Some 3 | Next \<Rightarrow> None)"
  by (cases d; simp add: hotspot_def PanoramaSphere_def find_image_eqs getPrevFootstepData_def
      getNextFootstepData_def or_null_def panoramaImages_def)+

lemma footstep_click_target:
  assumes "Map_render st = Inr v"
  shows "currentImageId (Map_click (FootstepClick d) st) =
           (case targetId (hotspot d (sphere v)) of None \<Rightarrow> currentImageId st | Some t \<Rightarrow> t)"
  using assms
  by (simp add: Map_click_def isDisabled_def handleClick_def handleNavigate_def
      split: option.splits)

lemma nav_button_click_target:
  assumes "Map_render st = Inr v"
  shows "currentImageId (Map_click (NavButtonClick k) st) =
           (if k < length panoramaImages then id' (panoramaImages ! k) else currentImageId st)"
  using assms by (simp add: Map_click_def)

lemma nav_button_ids:
  assumes "k < length panoramaImages"
  shows "id' (panoramaImages ! k) \<in> {1, 2, 3, 4}"
proof -
  from assms have "id' (panoramaImages ! k) \<in> id' ` set panoramaImages"
    by (intro imageI nth_mem)
  then show ?thesis by (simp only: image_ids)
qed

lemma Map_click_valid:
  assumes "find_image (currentImageId st) \<noteq> None"
  shows "find_image (currentImageId (Map_click c st)) \<noteq> None"
proof -
  from assms obtain img where img: "find_image (currentImageId st) = Some img" by auto
  from Map_render_valid [OF img] obtain v where
    v: "Map_render st = Inr v" and
    sph: "sphere v = PanoramaSphere (url img) (currentImageId st)" by blast
  from assms have cur: "currentImageId st \<in> {1, 2, 3, 4}"
    by (simp only: find_image_valid_iff)
  have "currentImageId (Map_click c st) \<in> {1, 2, 3, 4}"
  proof (cases c)
    case (FootstepClick d)
    from cur show ?thesis
      unfolding FootstepClick footstep_click_target [OF v] sph
      by (cases d) (auto simp: hotspot_targets)
  next
    case (NavButtonClick k)
    show ?thesis
    proof (cases "k < length panoramaImages")
      case True
      with nav_button_ids [OF True] show ?thesis
        unfolding NavButtonClick nav_button_click_target [OF v] by simp
    next
      case False
      with cur show ?thesis
        unfolding NavButtonClick nav_button_click_target [OF v] by simp
    qed
  qed
  then show ?thesis by (simp only: find_image_valid_iff)
qed

text \<open>
  Claim C10. The transition validates nothing: navigating to any integer sets the current
  scene id to it, also to 99, which the registry does not have. That the current id
  stays in the registry is the callers' doing: from a state whose id is in the registry,
  a click on either footstep or on any scene button leads to a state whose id is in the
  registry.
\<close>

theorem navigate_unvalidated:
  "currentImageId (handleNavigate i st) = i
   \<and> find_image 99 = None
   \<and> find_image (currentImageId (handleNavigate 99 st)) = None
   \<and> (find_image (currentImageId st) \<noteq> None \<longrightarrow>
        find_image (currentImageId (Map_click c st)) \<noteq> None)"
  using Map_click_valid [of st c]
  by (simp add: handleNavigate_def find_image_def panoramaImages_def)

text \<open>C10 at the initial state, with a click on the Next footstep.\<close>

theorem navigate_unvalidated_witness:
  "find_image (currentImageId Map_init) = Some (panoramaImages ! 0)
   \<and> currentImageId (Map_click (FootstepClick Next) Map_init) = 2
   \<and> find_image (currentImageId (Map_click (FootstepClick Next) Map_init)) \<noteq> None
   \<and> currentImageId (handleNavigate 99 Map_init) = 99"
proof -
  have v: "find_image (currentImageId Map_init) = Some (panoramaImages ! 0)"
    by (simp add: Map_init_def find_image_eqs)
  have c: "currentImageId (Map_click (FootstepClick Next) Map_init) = 2"
    by (simp add: Map_click_def Map_render_def Map_init_def find_image_eqs hotspot_def
        PanoramaSphere_def getNextFootstepData_def or_null_def isDisabled_def handleClick_def
        handleNavigate_def panoramaImages_def)
  from navigate_unvalidated [of 99 Map_init "FootstepClick Next"] v c show ?thesis
    by simp
qed

end
